theory Spec2Isabelle
  imports Complex_Main "HOL-Library.Log_Nat"
begin

section \<open>Monetary arithmetic\<close>

text \<open>
  The payroll module computes every amount with Python's \<^verbatim>\<open>decimal.Decimal\<close> under the
  default context (28 significant digits, rounding \<^verbatim>\<open>ROUND_HALF_EVEN\<close>); the module never
  changes the context. A \<^verbatim>\<open>Decimal\<close> is modelled by the rational number it denotes.
  Sums, differences and products of decimals are exact in the source as long as the result
  has at most 28 significant digits. A quotient (annual salary by the number of pay periods,
  annual tax by 26) is rounded to 28 significant digits and quantized to the cent right
  away; the model quantizes the exact quotient, which is the same cent unless the quotient
  lies within the 28th digit of a half cent without being one, and that cannot happen for
  amounts in cents below \<open>10\<^sup>2\<^sup>0\<close>. The model covers amounts whose digits fit the context;
  beyond it the source rounds to 28 digits or raises \<^verbatim>\<open>InvalidOperation\<close>.
\<close>

type_synonym decimal = rat

text \<open>\<^verbatim>\<open>x.quantize(PRECISION, rounding=ROUND_HALF_UP)\<close> with \<^verbatim>\<open>PRECISION = Decimal("0.01")\<close>:
  nearest cent, a tie goes away from zero.\<close>

definition quantize_half_up :: "decimal \<Rightarrow> decimal" where
  "quantize_half_up x = sgn x * of_int \<lfloor>\<bar>x\<bar> * 100 + 1 / 2\<rfloor> / 100"

text \<open>\<^verbatim>\<open>x.quantize(PRECISION)\<close>: no rounding argument, so the context's
  \<^verbatim>\<open>ROUND_HALF_EVEN\<close> applies: nearest cent, a tie goes to the even cent.\<close>

definition round_half_even :: "rat \<Rightarrow> int" where
  "round_half_even x =
     (let n = \<lfloor>x\<rfloor>; f = x - of_int n in
      if f < 1 / 2 then n
      else if 1 / 2 < f then n + 1
      else if even n then n
      else n + 1)"

definition quantize_ctx :: "decimal \<Rightarrow> decimal" where
  "quantize_ctx x = of_int (round_half_even (x * 100)) / 100"

section \<open>SQLite REAL arithmetic\<close>

text \<open>
  \<^verbatim>\<open>update_ytd\<close> adds inside SQLite: \<^verbatim>\<open>CAST(ytd_gross AS REAL) + ?\<close>. A \<^verbatim>\<open>REAL\<close> is
  an IEEE-754 binary64 number: 53 significant bits, round to nearest, a tie to the even
  significand. \<open>binary64 x\<close> is the binary64 number nearest to \<open>x\<close>, for \<open>x\<close> in the
  normal range (payroll amounts are far from overflow and from the subnormal numbers).
  \<open>ilog2 x\<close> is the exponent \<open>e\<close> with \<open>2\<^sup>e \<le> x < 2\<^sup>e\<^sup>+\<^sup>1\<close> for \<open>x > 0\<close>.
\<close>

definition pow2 :: "int \<Rightarrow> rat" where
  "pow2 k = (if 0 \<le> k then 2 ^ nat k else 1 / 2 ^ nat (- k))"

definition ilog2 :: "rat \<Rightarrow> int" where
  "ilog2 x =
     (let (p, q) = quotient_of x; e = bitlen p - bitlen q
      in if pow2 e \<le> x then e else e - 1)"

definition binary64 :: "rat \<Rightarrow> rat" where
  "binary64 x =
     (if x = 0 then 0
      else let ulp = pow2 (ilog2 \<bar>x\<bar> - 52)
           in of_int (round_half_even (x / ulp)) * ulp)"

text \<open>\<^verbatim>\<open>CAST(a AS REAL) + ?\<close> with the parameter bound to the text of a decimal: both
  operands become binary64 numbers and the sum is rounded to binary64.\<close>

definition real_add :: "decimal \<Rightarrow> decimal \<Rightarrow> rat" where
  "real_add a b = binary64 (binary64 a + binary64 b)"

section \<open>Constants\<close>

definition SS_RATE :: decimal where "SS_RATE = 62 / 1000"
definition SS_WAGE_BASE :: decimal where "SS_WAGE_BASE = 168600"
definition MEDICARE_RATE :: decimal where "MEDICARE_RATE = 145 / 10000"
definition ADDITIONAL_MEDICARE_RATE :: decimal where "ADDITIONAL_MEDICARE_RATE = 9 / 1000"
definition ADDITIONAL_MEDICARE_THRESHOLD :: decimal where "ADDITIONAL_MEDICARE_THRESHOLD = 200000"
definition W4_ALLOWANCE_2024 :: decimal where "W4_ALLOWANCE_2024 = 4300"

text \<open>A bracket is (lower bound, upper bound or \<^verbatim>\<open>None\<close>, marginal rate).\<close>

type_synonym bracket = "decimal \<times> decimal option \<times> decimal"

definition FEDERAL_BRACKETS_SINGLE_2024 :: "bracket list" where
  "FEDERAL_BRACKETS_SINGLE_2024 =
     [(0, Some 11600, 10 / 100),
      (11600, Some 47150, 12 / 100),
      (47150, Some 100525, 22 / 100),
      (100525, Some 191950, 24 / 100),
      (191950, Some 243725, 32 / 100),
      (243725, Some 609350, 35 / 100),
      (609350, None, 37 / 100)]"

definition FEDERAL_BRACKETS_MFJ_2024 :: "bracket list" where
  "FEDERAL_BRACKETS_MFJ_2024 =
     [(0, Some 23200, 10 / 100),
      (23200, Some 94300, 12 / 100),
      (94300, Some 201050, 22 / 100),
      (201050, Some 383900, 24 / 100),
      (383900, Some 487450, 32 / 100),
      (487450, Some 731200, 35 / 100),
      (731200, None, 37 / 100)]"

text \<open>The dictionary \<^verbatim>\<open>STANDARD_DEDUCTIONS\<close>, keyed by filing status.\<close>

definition STANDARD_DEDUCTIONS :: "(string \<times> decimal) list" where
  "STANDARD_DEDUCTIONS =
     [(''single'', 14600), (''married'', 29200), (''head_of_household'', 21900)]"

section \<open>Exceptions\<close>

text \<open>The exceptions that the modelled code can raise: the \<^verbatim>\<open>ValueError\<close> of
  \<^verbatim>\<open>calculate_net_pay\<close> with its message, SQLite's \<^verbatim>\<open>IntegrityError\<close> for a paystub
  whose employee is not in the employees table (the schema declares the foreign key and
  every connection enables foreign keys), and Python's \<^verbatim>\<open>UnboundLocalError\<close> with the name
  of the local variable that was read before it was bound.\<close>

datatype error = ValueError string | IntegrityError | UnboundLocalError string

text \<open>Reading a local variable of a Python function: a local that no statement has bound
  yet has no value, and reading it raises \<^verbatim>\<open>UnboundLocalError\<close>.\<close>

definition load_local :: "string \<Rightarrow> 'a option \<Rightarrow> error + 'a" where
  "load_local var v = (case v of None \<Rightarrow> Inl (UnboundLocalError var) | Some x \<Rightarrow> Inr x)"

section \<open>Tax withholding\<close>

text \<open>The bracket loop of \<^verbatim>\<open>withhold_taxes\<close>: \<^verbatim>\<open>break\<close> ends the walk with the tax
  accumulated so far, \<^verbatim>\<open>continue\<close> skips a bracket that holds no income.\<close>

fun bracket_loop :: "decimal \<Rightarrow> bracket list \<Rightarrow> decimal \<Rightarrow> decimal" where
  "bracket_loop adj_annual [] annual_tax = annual_tax"
| "bracket_loop adj_annual ((min_inc, max_inc, rate) # brackets) annual_tax =
     (if adj_annual \<le> min_inc then annual_tax
      else
        let upper = (case max_inc of Some m \<Rightarrow> m | None \<Rightarrow> adj_annual);
            in_bracket = min adj_annual upper - min_inc
        in if in_bracket \<le> 0 then bracket_loop adj_annual brackets annual_tax
           else bracket_loop adj_annual brackets
                  (annual_tax + quantize_half_up (in_bracket * rate)))"

text \<open>\<^verbatim>\<open>adj_annual\<close>, the brackets chosen, and the annual tax, as lines 552 to 564 of
  \<^verbatim>\<open>withhold_taxes\<close> are written.\<close>

definition standard_deduction :: "string \<Rightarrow> decimal" where
  "standard_deduction filing_status =
     (case map_of STANDARD_DEDUCTIONS filing_status of Some d \<Rightarrow> d | None \<Rightarrow> 14600)"

definition adj_annual :: "decimal \<Rightarrow> string \<Rightarrow> int \<Rightarrow> decimal" where
  "adj_annual annual_gross filing_status w4_allowances =
     (let allowance_reduction = W4_ALLOWANCE_2024 * of_int w4_allowances
      in max 0 (annual_gross - allowance_reduction - standard_deduction filing_status))"

definition brackets_for :: "string \<Rightarrow> bracket list" where
  "brackets_for filing_status =
     (if filing_status = ''married'' then FEDERAL_BRACKETS_MFJ_2024
      else FEDERAL_BRACKETS_SINGLE_2024)"

definition annual_tax :: "decimal \<Rightarrow> string \<Rightarrow> int \<Rightarrow> decimal" where
  "annual_tax annual_gross filing_status w4_allowances =
     bracket_loop (adj_annual annual_gross filing_status w4_allowances)
       (brackets_for filing_status) 0"

text \<open>The statements of \<^verbatim>\<open>withhold_taxes\<close> from line 553 on, in the order of the source:
  the federal tax of the period, the Social Security tax and the Medicare tax.\<close>

definition federal_period :: "decimal \<Rightarrow> string \<Rightarrow> int \<Rightarrow> decimal" where
  "federal_period annual_gross filing_status w4_allowances =
     quantize_half_up (annual_tax annual_gross filing_status w4_allowances / 26)"

definition ss_tax_of :: "decimal \<Rightarrow> decimal \<Rightarrow> decimal" where
  "ss_tax_of gross ytd_ss =
     (let remaining_ss_base = max 0 (SS_WAGE_BASE - ytd_ss);
          ss_taxable = min gross remaining_ss_base
      in quantize_half_up (ss_taxable * SS_RATE))"

definition medicare_tax_of :: "decimal \<Rightarrow> decimal \<Rightarrow> decimal" where
  "medicare_tax_of gross ytd_ss =
     (let medicare_tax = quantize_half_up (gross * MEDICARE_RATE);
          ytd_with_this = ytd_ss + gross
      in if ADDITIONAL_MEDICARE_THRESHOLD < ytd_with_this
         then let extra = min gross (ytd_with_this - ADDITIONAL_MEDICARE_THRESHOLD)
              in medicare_tax + quantize_half_up (extra * ADDITIONAL_MEDICARE_RATE)
         else medicare_tax)"

text \<open>
  \<^verbatim>\<open>withhold_taxes(gross, annual_gross, filing_status, w4_allowances, ytd_ss)\<close> is to return
  (federal tax, Social Security tax, Medicare tax) for the period. Its body contains the
  statement \<^verbatim>\<open>from decimal import Decimal\<close> (line 569, and once more as \<^verbatim>\<open>D\<close> on line
  581). An import statement binds its name in the scope of the function that contains it,
  so within \<^verbatim>\<open>withhold_taxes\<close> the name \<^verbatim>\<open>Decimal\<close> is a local variable for the whole body
  and does not refer to the module's import on line 20. The local is bound when line 569
  runs. Line 552 multiplies two numbers and cannot fail; line 553 reads \<^verbatim>\<open>Decimal\<close>
  (the first operand, \<^verbatim>\<open>Decimal("0")\<close>, of \<^verbatim>\<open>max\<close>) while the local is still unbound.
  \<open>Decimal_at_553\<close> is the state of that local on entry to line 553.
\<close>

definition Decimal_at_553 :: "unit option" where
  "Decimal_at_553 = None"

definition withhold_taxes ::
  "decimal \<Rightarrow> decimal \<Rightarrow> string \<Rightarrow> int \<Rightarrow> decimal
     \<Rightarrow> error + (decimal \<times> decimal \<times> decimal)" where
  "withhold_taxes gross annual_gross filing_status w4_allowances ytd_ss =
     (case load_local ''Decimal'' Decimal_at_553 of
        Inl e \<Rightarrow> Inl e
      | Inr bound \<Rightarrow>
          Inr (federal_period annual_gross filing_status w4_allowances,
               ss_tax_of gross ytd_ss,
               medicare_tax_of gross ytd_ss))"

section \<open>Data model\<close>

datatype PayFrequency = WEEKLY | BIWEEKLY | SEMI_MONTHLY | MONTHLY

fun periods_per_year :: "PayFrequency \<Rightarrow> int" where
  "periods_per_year WEEKLY = 52"
| "periods_per_year BIWEEKLY = 26"
| "periods_per_year SEMI_MONTHLY = 24"
| "periods_per_year MONTHLY = 12"

datatype EmployeeStatus = ACTIVE | TERMINATED | ON_LEAVE

datatype DeductionType =
    PRE_TAX_401K | PRE_TAX_HSA | PRE_TAX_FSA | PRE_TAX_HEALTH
  | POST_TAX_ROTH | POST_TAX_GARNISHMENT | POST_TAX_OTHER

text \<open>A calendar date as (year, month, day).\<close>

type_synonym date = "nat \<times> nat \<times> nat"

record Deduction =
  ded_id :: string
  ded_employee_id :: string
  deduction_type :: DeductionType
  amount :: decimal
  description :: string
  is_percentage :: bool
  active :: bool

record Employee =
  emp_id :: string
  name :: string
  salary :: decimal
  hourly_rate :: "decimal option"
  pay_frequency :: PayFrequency
  filing_status :: string
  w4_allowances :: int
  state :: string
  status :: EmployeeStatus
  hire_date :: date
  department :: string
  title :: string
  email :: string
  ytd_gross :: decimal
  ytd_federal_tax :: decimal
  ytd_ss_tax :: decimal
  ytd_medicare_tax :: decimal
  ytd_deductions :: decimal

definition is_hourly :: "Employee \<Rightarrow> bool" where
  "is_hourly e = (hourly_rate e \<noteq> None)"

definition period_gross :: "Employee \<Rightarrow> decimal" where
  "period_gross e = quantize_ctx (salary e / of_int (periods_per_year (pay_frequency e)))"

record PayPeriod =
  start_date :: date
  end_date :: date
  pay_date :: date

text \<open>The dictionary returned by \<^verbatim>\<open>calculate_net_pay\<close>.\<close>

record PayrollResult =
  gross :: decimal
  regular_hours :: "decimal option"
  overtime_hours :: "decimal option"
  pre_tax_deductions :: decimal
  taxable_gross :: decimal
  federal_tax :: decimal
  state_tax :: decimal
  ss_tax :: decimal
  medicare_tax :: decimal
  post_tax_deductions :: decimal
  total_taxes :: decimal
  net :: decimal

text \<open>The label of a paystub line; the hours printed inside a label are kept as a value.\<close>

datatype LineLabel =
    RegularPay | RegularPayHours decimal | OvertimeHours decimal | PreTaxDeductions
  | FederalIncomeTax | SocialSecurityTax | MedicareTax | StateTax string

record PaystubLine =
  label :: LineLabel
  line_amount :: decimal
  ytd_amount :: decimal
  is_deduction :: bool

text \<open>A paystub. Its \<^verbatim>\<open>id\<close> and \<^verbatim>\<open>check_number\<close> (random UUIDs) and
  \<^verbatim>\<open>generated_at\<close> (the clock) are left out: no computation reads them.\<close>

record Paystub =
  employee_id :: string
  employee_name :: string
  pay_period :: PayPeriod
  stub_regular_hours :: "decimal option"
  stub_overtime_hours :: "decimal option"
  gross_pay :: decimal
  federal_income_tax :: decimal
  state_income_tax :: decimal
  stub_ss_tax :: decimal
  stub_medicare_tax :: decimal
  stub_pre_tax_deductions :: decimal
  stub_post_tax_deductions :: decimal
  net_pay :: decimal
  lines :: "PaystubLine list"
  stub_ytd_gross :: decimal
  ytd_net :: decimal

section \<open>Database layer\<close>

text \<open>The three tables of \<^verbatim>\<open>PayrollDB\<close>, rows in insertion order.\<close>

record PayrollDB =
  employees :: "Employee list"
  paystubs :: "Paystub list"
  deductions :: "Deduction list"

definition get_deductions :: "PayrollDB \<Rightarrow> string \<Rightarrow> Deduction list" where
  "get_deductions db eid =
     filter (\<lambda>d. ded_employee_id d = eid \<and> active d) (deductions db)"

text \<open>\<^verbatim>\<open>save_paystub\<close> inserts a row: hours that are \<^verbatim>\<open>None\<close> or zero are stored
  as \<^verbatim>\<open>NULL\<close> (\<^verbatim>\<open>str(h) if h else None\<close>), and the table has no column for the lines,
  which \<^verbatim>\<open>_row_to_paystub\<close> reads back as the empty list.\<close>

definition stored_hours :: "decimal option \<Rightarrow> decimal option" where
  "stored_hours h = (case h of Some x \<Rightarrow> if x \<noteq> 0 then Some x else None | None \<Rightarrow> None)"

definition save_paystub :: "PayrollDB \<Rightarrow> Paystub \<Rightarrow> error + PayrollDB" where
  "save_paystub db stub =
     (if employee_id stub \<in> emp_id ` set (employees db)
      then Inr (db\<lparr>paystubs := paystubs db @
                  [stub\<lparr>stub_regular_hours := stored_hours (stub_regular_hours stub),
                        stub_overtime_hours := stored_hours (stub_overtime_hours stub),
                        lines := []\<rparr>]\<rparr>)
      else Inl IntegrityError)"

text \<open>\<^verbatim>\<open>update_ytd\<close>: every row with the id gets each accumulator replaced by
  \<^verbatim>\<open>CAST(CAST(acc AS REAL) + ? AS TEXT)\<close>. The parameter \<open>real_text\<close> stands for SQLite's
  rendering of a \<^verbatim>\<open>REAL\<close> as text, read back as a \<^verbatim>\<open>Decimal\<close> by
  \<^verbatim>\<open>_row_to_employee\<close>; the rendering is SQLite's, not this module's.\<close>

definition update_ytd ::
  "(rat \<Rightarrow> decimal) \<Rightarrow> PayrollDB \<Rightarrow> string \<Rightarrow> decimal \<Rightarrow> decimal \<Rightarrow> decimal \<Rightarrow> decimal \<Rightarrow> decimal
     \<Rightarrow> PayrollDB" where
  "update_ytd real_text db eid g federal ss medicare deds =
     db\<lparr>employees :=
          map (\<lambda>e. if emp_id e = eid
                   then e\<lparr>ytd_gross := real_text (real_add (ytd_gross e) g),
                          ytd_federal_tax := real_text (real_add (ytd_federal_tax e) federal),
                          ytd_ss_tax := real_text (real_add (ytd_ss_tax e) ss),
                          ytd_medicare_tax := real_text (real_add (ytd_medicare_tax e) medicare),
                          ytd_deductions := real_text (real_add (ytd_deductions e) deds)\<rparr>
                   else e)
              (employees db)\<rparr>"

section \<open>Net pay\<close>

definition pre_tax_types :: "DeductionType set" where
  "pre_tax_types = {PRE_TAX_401K, PRE_TAX_HSA, PRE_TAX_FSA, PRE_TAX_HEALTH}"

text \<open>The loop over the employee's deductions, carrying
  (\<^verbatim>\<open>pre_tax_total\<close>, \<^verbatim>\<open>post_tax_total\<close>).\<close>

fun deduction_loop :: "decimal \<Rightarrow> Deduction list \<Rightarrow> decimal \<times> decimal \<Rightarrow> decimal \<times> decimal" where
  "deduction_loop g [] totals = totals"
| "deduction_loop g (ded # deds) (pre_tax_total, post_tax_total) =
     (let amt = (if is_percentage ded then quantize_ctx (g * amount ded / 100)
                 else amount ded)
      in if deduction_type ded \<in> pre_tax_types
         then deduction_loop g deds (pre_tax_total + amt, post_tax_total)
         else deduction_loop g deds (pre_tax_total, post_tax_total + amt))"

text \<open>Gross pay with the hours reported: hourly pay when the employee is hourly and hours
  are given, the salaried period gross otherwise.\<close>

definition gross_pay_of ::
  "Employee \<Rightarrow> decimal option \<Rightarrow> decimal option \<Rightarrow> decimal \<times> decimal option \<times> decimal option" where
  "gross_pay_of employee hours ot_hours =
     (case (hourly_rate employee, hours) of
        (Some rate, Some h) \<Rightarrow>
          let regular = min h 40;
              overtime = max 0 (h - 40) + (case ot_hours of Some extra \<Rightarrow> extra | None \<Rightarrow> 0)
          in (quantize_ctx (regular * rate + overtime * rate * (15 / 10)),
              Some regular, Some overtime)
      | _ \<Rightarrow> (period_gross employee, None, None))"

text \<open>Lines 599 to 624 of \<^verbatim>\<open>calculate_net_pay\<close>: the locals \<^verbatim>\<open>gross\<close>, \<^verbatim>\<open>regular\<close>,
  \<^verbatim>\<open>overtime\<close>, \<^verbatim>\<open>pre_tax_total\<close> and \<^verbatim>\<open>post_tax_total\<close>.\<close>

definition gross_and_deductions ::
  "PayrollDB \<Rightarrow> Employee \<Rightarrow> decimal option \<Rightarrow> decimal option
     \<Rightarrow> decimal \<times> decimal option \<times> decimal option \<times> decimal \<times> decimal" where
  "gross_and_deductions db employee hours ot_hours =
     (let (g, regular, overtime) = gross_pay_of employee hours ot_hours;
          (pre_tax_total, post_tax_total) =
             deduction_loop g (get_deductions db (emp_id employee)) (0, 0)
      in (g, regular, overtime, pre_tax_total, post_tax_total))"

text \<open>Lines 626 to 635: the five arguments with which \<^verbatim>\<open>calculate_net_pay\<close> calls
  \<^verbatim>\<open>withhold_taxes\<close>, in the order \<^verbatim>\<open>gross\<close>, \<^verbatim>\<open>annual_gross\<close>, \<^verbatim>\<open>filing_status\<close>,
  \<^verbatim>\<open>w4_allowances\<close>, \<^verbatim>\<open>ytd_ss\<close>.\<close>

definition withhold_call_args ::
  "PayrollDB \<Rightarrow> Employee \<Rightarrow> decimal option \<Rightarrow> decimal option
     \<Rightarrow> decimal \<times> decimal \<times> string \<times> int \<times> decimal" where
  "withhold_call_args db employee hours ot_hours =
     (let (g, regular, overtime, pre_tax_total, post_tax_total) =
             gross_and_deductions db employee hours ot_hours;
          taxable = g - pre_tax_total;
          annual_taxable = taxable * of_int (periods_per_year (pay_frequency employee))
      in (taxable, annual_taxable, filing_status employee, w4_allowances employee,
          ytd_ss_tax employee))"

text \<open>\<^verbatim>\<open>calculate_net_pay\<close>: an exception of \<^verbatim>\<open>withhold_taxes\<close> is not caught and ends the
  call.\<close>

definition calculate_net_pay ::
  "PayrollDB \<Rightarrow> Employee \<Rightarrow> decimal option \<Rightarrow> decimal option \<Rightarrow> error + PayrollResult" where
  "calculate_net_pay db employee hours ot_hours =
     (if status employee \<noteq> ACTIVE
      then Inl (ValueError (''Employee '' @ emp_id employee @ '' is not active''))
      else
        let (g, regular, overtime, pre_tax_total, post_tax_total) =
               gross_and_deductions db employee hours ot_hours;
            (taxable, annual_taxable, fs, w4, ytd_ss) =
               withhold_call_args db employee hours ot_hours
        in case withhold_taxes taxable annual_taxable fs w4 ytd_ss of
             Inl e \<Rightarrow> Inl e
           | Inr (federal, ss, medicare) \<Rightarrow>
               let state_rate = 5 / 100;
                   st_tax = quantize_half_up (taxable * state_rate);
                   total = federal + ss + medicare + st_tax;
                   net_amount = g - pre_tax_total - total - post_tax_total
               in Inr \<lparr>gross = g, regular_hours = regular, overtime_hours = overtime,
                       pre_tax_deductions = pre_tax_total, taxable_gross = taxable,
                       federal_tax = federal, state_tax = st_tax, ss_tax = ss,
                       medicare_tax = medicare, post_tax_deductions = post_tax_total,
                       total_taxes = total, net = net_amount\<rparr>)"

section \<open>Paystubs and bulk processing\<close>

definition paystub_lines :: "Employee \<Rightarrow> PayrollResult \<Rightarrow> PaystubLine list" where
  "paystub_lines employee calc =
     [\<lparr>label = (case regular_hours calc of
                    Some h \<Rightarrow> if h \<noteq> 0 then RegularPayHours h else RegularPay
                  | None \<Rightarrow> RegularPay),
       line_amount = gross calc, ytd_amount = ytd_gross employee + gross calc,
       is_deduction = False\<rparr>]
     @ (case overtime_hours calc of
          Some h \<Rightarrow>
            if h \<noteq> 0 \<and> 0 < h
            then [\<lparr>label = OvertimeHours h, line_amount = gross calc,
                    ytd_amount = ytd_gross employee, is_deduction = False\<rparr>]
            else []
        | None \<Rightarrow> [])
     @ [\<lparr>label = PreTaxDeductions, line_amount = pre_tax_deductions calc,
          ytd_amount = ytd_deductions employee, is_deduction = True\<rparr>,
        \<lparr>label = FederalIncomeTax, line_amount = federal_tax calc,
          ytd_amount = ytd_federal_tax employee + federal_tax calc, is_deduction = True\<rparr>,
        \<lparr>label = SocialSecurityTax, line_amount = ss_tax calc,
          ytd_amount = ytd_ss_tax employee + ss_tax calc, is_deduction = True\<rparr>,
        \<lparr>label = MedicareTax, line_amount = medicare_tax calc,
          ytd_amount = ytd_medicare_tax employee + medicare_tax calc, is_deduction = True\<rparr>,
        \<lparr>label = StateTax (state employee), line_amount = state_tax calc,
          ytd_amount = 0, is_deduction = True\<rparr>]"

definition make_paystub :: "Employee \<Rightarrow> PayPeriod \<Rightarrow> PayrollResult \<Rightarrow> Paystub" where
  "make_paystub employee period calc =
     \<lparr>employee_id = emp_id employee, employee_name = name employee, pay_period = period,
      stub_regular_hours = regular_hours calc, stub_overtime_hours = overtime_hours calc,
      gross_pay = gross calc, federal_income_tax = federal_tax calc,
      state_income_tax = state_tax calc, stub_ss_tax = ss_tax calc,
      stub_medicare_tax = medicare_tax calc,
      stub_pre_tax_deductions = pre_tax_deductions calc,
      stub_post_tax_deductions = post_tax_deductions calc, net_pay = net calc,
      lines = paystub_lines employee calc,
      stub_ytd_gross = ytd_gross employee + gross calc, ytd_net = ytd_gross employee\<rparr>"

text \<open>\<^verbatim>\<open>generate_paystub\<close> returns the paystub and leaves the database updated; an
  exception of the calculation or of \<^verbatim>\<open>save_paystub\<close> leaves the database as it was.\<close>

definition generate_paystub ::
  "(rat \<Rightarrow> decimal) \<Rightarrow> PayrollDB \<Rightarrow> Employee \<Rightarrow> PayPeriod \<Rightarrow> decimal option \<Rightarrow> decimal option
     \<Rightarrow> error + (Paystub \<times> PayrollDB)" where
  "generate_paystub real_text db employee period hours ot_hours =
     (case calculate_net_pay db employee hours ot_hours of
        Inl e \<Rightarrow> Inl e
      | Inr calc \<Rightarrow>
          let stub = make_paystub employee period calc in
          (case save_paystub db stub of
             Inl e \<Rightarrow> Inl e
           | Inr db1 \<Rightarrow>
               Inr (stub,
                    update_ytd real_text db1 (emp_id employee) (gross calc) (federal_tax calc)
                      (ss_tax calc) (medicare_tax calc)
                      (pre_tax_deductions calc + post_tax_deductions calc))))"

text \<open>The loop of \<^verbatim>\<open>bulk_process\<close>, carrying the database and the two local lists
  \<^verbatim>\<open>stubs\<close> and \<^verbatim>\<open>errors\<close>. \<^verbatim>\<open>except Exception\<close> catches each of the three exceptions.
  The source appends \<^verbatim>\<open>(emp.id, str(e))\<close>; the model keeps the exception itself, which
  carries the message of a \<^verbatim>\<open>ValueError\<close> (the wording of the interpreter's own messages
  differs between Python versions).\<close>

fun bulk_loop ::
  "(rat \<Rightarrow> decimal) \<Rightarrow> PayrollDB \<Rightarrow> Employee list \<Rightarrow> PayPeriod \<Rightarrow> Paystub list
     \<Rightarrow> (string \<times> error) list \<Rightarrow> PayrollDB \<times> Paystub list \<times> (string \<times> error) list" where
  "bulk_loop real_text db [] period stubs errors = (db, stubs, errors)"
| "bulk_loop real_text db (emp # emps) period stubs errors =
     (case generate_paystub real_text db emp period None None of
        Inr (stub, db1) \<Rightarrow> bulk_loop real_text db1 emps period (stubs @ [stub]) errors
      | Inl e \<Rightarrow> bulk_loop real_text db emps period stubs (errors @ [(emp_id emp, e)]))"

text \<open>\<^verbatim>\<open>bulk_process\<close> returns \<^verbatim>\<open>stubs\<close>; the second component is the database it
  leaves behind. The list \<^verbatim>\<open>errors\<close> is logged (its length) and dropped.\<close>

definition bulk_process ::
  "(rat \<Rightarrow> decimal) \<Rightarrow> PayrollDB \<Rightarrow> Employee list \<Rightarrow> PayPeriod \<Rightarrow> Paystub list \<times> PayrollDB" where
  "bulk_process real_text db emps period =
     (case bulk_loop real_text db emps period [] [] of
        (db1, stubs, errors) \<Rightarrow> (stubs, db1))"

section \<open>Auxiliary definitions and example data\<close>

text \<open>The employees of a batch for which \<^verbatim>\<open>generate_paystub\<close> raises, each with the
  exception raised, and those for which it returns.\<close>

definition paystub_failures ::
  "(rat \<Rightarrow> decimal) \<Rightarrow> PayrollDB \<Rightarrow> PayPeriod \<Rightarrow> Employee list \<Rightarrow> (string \<times> error) list" where
  "paystub_failures real_text db period emps =
     concat (map (\<lambda>e. case generate_paystub real_text db e period None None of
                         Inl err \<Rightarrow> [(emp_id e, err)] | Inr res \<Rightarrow> []) emps)"

definition paystub_successes ::
  "(rat \<Rightarrow> decimal) \<Rightarrow> PayrollDB \<Rightarrow> PayPeriod \<Rightarrow> Employee list \<Rightarrow> string list" where
  "paystub_successes real_text db period emps =
     concat (map (\<lambda>e. case generate_paystub real_text db e period None None of
                         Inl err \<Rightarrow> [] | Inr res \<Rightarrow> [emp_id e]) emps)"

text \<open>The exception with which \<^verbatim>\<open>calculate_net_pay\<close> ends for an employee: the check of
  the status comes first, the call of \<^verbatim>\<open>withhold_taxes\<close> after it.\<close>

definition net_pay_error :: "Employee \<Rightarrow> error" where
  "net_pay_error e =
     (if status e \<noteq> ACTIVE then ValueError (''Employee '' @ emp_id e @ '' is not active'')
      else UnboundLocalError ''Decimal'')"

text \<open>An employee as \<^verbatim>\<open>add_employee\<close> creates it with its default arguments: salaried,
  filing single, one allowance, state CA, active, all accumulators zero.\<close>

definition example_employee :: "string \<Rightarrow> decimal \<Rightarrow> PayFrequency \<Rightarrow> Employee" where
  "example_employee eid sal freq =
     \<lparr>emp_id = eid, name = ''Employee '' @ eid, salary = sal, hourly_rate = None,
      pay_frequency = freq, filing_status = ''single'', w4_allowances = 1, state = ''CA'',
      status = ACTIVE, hire_date = (2024, 1, 1), department = [], title = [], email = [],
      ytd_gross = 0, ytd_federal_tax = 0, ytd_ss_tax = 0, ytd_medicare_tax = 0,
      ytd_deductions = 0\<rparr>"

definition ex_period :: PayPeriod where
  "ex_period = \<lparr>start_date = (2024, 1, 1), end_date = (2024, 1, 14), pay_date = (2024, 1, 19)\<rparr>"

text \<open>80000 a year, biweekly, with a flat 401k deduction of 200 and a Roth deduction of 5
  percent of gross.\<close>

definition ex_alice :: Employee where
  "ex_alice = example_employee ''EMP-A'' 80000 BIWEEKLY"

text \<open>120000 a year, paid monthly.\<close>

definition ex_monthly :: Employee where
  "ex_monthly = example_employee ''EMP-M'' 120000 MONTHLY"

text \<open>260000 a year, biweekly, whose Social Security wages have reached the wage base:
  the tax paid so far is 168600 times 0.062.\<close>

definition ex_capped :: Employee where
  "ex_capped = (example_employee ''EMP-C'' 260000 BIWEEKLY)
     \<lparr>ytd_gross := 170000, ytd_ss_tax := 1045320 / 100\<rparr>"

text \<open>52000 a year, biweekly (2000 a period), with a flat 401k deduction of 2500.\<close>

definition ex_over :: Employee where
  "ex_over = example_employee ''EMP-O'' 52000 BIWEEKLY"

text \<open>26000.13 a year, biweekly: a period gross of exactly 1000.005 before rounding.\<close>

definition ex_tie :: Employee where
  "ex_tie = example_employee ''EMP-T'' (2600013 / 100) BIWEEKLY"

text \<open>An employee with a year-to-date gross of \<open>2\<^sup>5\<^sup>3\<close>.\<close>

definition ex_huge :: Employee where
  "ex_huge = (example_employee ''EMP-H'' 12 MONTHLY)\<lparr>ytd_gross := 9007199254740992\<rparr>"

text \<open>A batch of five employees, the third terminated.\<close>

definition ex_first :: Employee where
  "ex_first = example_employee ''EMP-1'' 50000 BIWEEKLY"

definition ex_terminated :: Employee where
  "ex_terminated = (example_employee ''EMP-3'' 52000 BIWEEKLY)\<lparr>status := TERMINATED\<rparr>"

definition ex_batch :: "Employee list" where
  "ex_batch =
     [ex_first,
      example_employee ''EMP-2'' 51000 BIWEEKLY,
      ex_terminated,
      example_employee ''EMP-4'' 53000 BIWEEKLY,
      example_employee ''EMP-5'' 54000 BIWEEKLY]"

definition ex_db :: PayrollDB where
  "ex_db =
     \<lparr>employees = [ex_alice, ex_monthly, ex_capped, ex_over, ex_tie] @ ex_batch,
      paystubs = [],
      deductions =
        [\<lparr>ded_id = ''ded1'', ded_employee_id = ''EMP-A'', deduction_type = PRE_TAX_401K,
           amount = 200, description = ''401k'', is_percentage = False, active = True\<rparr>,
         \<lparr>ded_id = ''ded2'', ded_employee_id = ''EMP-A'', deduction_type = POST_TAX_ROTH,
           amount = 5, description = ''Roth'', is_percentage = True, active = True\<rparr>,
         \<lparr>ded_id = ''ded3'', ded_employee_id = ''EMP-O'', deduction_type = PRE_TAX_401K,
           amount = 2500, description = ''401k'', is_percentage = False, active = True\<rparr>]\<rparr>"

text \<open>An hourly employee at 10.01 an hour, and a pre-tax deduction of 1 percent of gross.\<close>

definition ex_hourly :: Employee where
  "ex_hourly = (example_employee ''EMP-T'' 0 BIWEEKLY)\<lparr>hourly_rate := Some (1001 / 100)\<rparr>"

definition ex_percent :: Deduction where
  "ex_percent =
     \<lparr>ded_id = ''ded4'', ded_employee_id = ''EMP-T'', deduction_type = PRE_TAX_401K,
      amount = 1, description = ''401k'', is_percentage = True, active = True\<rparr>"

text \<open>A database whose only row is the employee with the large year-to-date gross.\<close>

definition ex_db_huge :: PayrollDB where
  "ex_db_huge = \<lparr>employees = [ex_huge], paystubs = [], deductions = []\<rparr>"

section \<open>The unbound local of the tax computation\<close>

lemma withhold_taxes_unbound:
  "withhold_taxes g annual fs w4 ytd = Inl (UnboundLocalError ''Decimal'')"
  by (simp add: withhold_taxes_def load_local_def Decimal_at_553_def)

lemma calculate_net_pay_error: "calculate_net_pay db e h ot = Inl (net_pay_error e)"
  by (simp add: calculate_net_pay_def net_pay_error_def withhold_taxes_unbound Let_def
        split: prod.splits)

lemma generate_paystub_error: "generate_paystub ct db e p h ot = Inl (net_pay_error e)"
  by (simp add: generate_paystub_def calculate_net_pay_error)

lemma bulk_loop_all_fail:
  "bulk_loop ct db emps p stubs errors
     = (db, stubs, errors @ map (\<lambda>e. (emp_id e, net_pay_error e)) emps)"
  by (induction emps arbitrary: errors) (simp_all add: generate_paystub_error)

text \<open>
  C10. The claim is that for nonnegative arguments \<^verbatim>\<open>withhold_taxes\<close> returns a triple of
  nonnegative taxes. It returns nothing: every call raises \<^verbatim>\<open>UnboundLocalError\<close> on line
  553, where \<^verbatim>\<open>Decimal\<close> is read as a local that the import of line 569 has not bound
  yet. This holds for the call \<^verbatim>\<open>withhold_taxes(Decimal("0"), Decimal("0"))\<close>, for which the
  repository's test expects the triple (0, 0, 0), and for every other call.
\<close>

theorem withhold_taxes_returns_no_triple:
  "withhold_taxes 0 0 ''single'' 1 0 = Inl (UnboundLocalError ''Decimal'')
   \<and> withhold_taxes g annual fs w4 ytd = Inl (UnboundLocalError ''Decimal'')"
  by (simp add: withhold_taxes_def load_local_def Decimal_at_553_def)

section \<open>The ledger identity\<close>


section \<open>Federal withholding per period\<close>

text \<open>
  C2. The claim is that the federal withholding of a period is the annual tax divided by
  the employee's own number of pay periods, rounded to the cent. For the employee paid
  monthly with 120000 a year, \<^verbatim>\<open>calculate_net_pay\<close> calls \<^verbatim>\<open>withhold_taxes\<close> with a period
  gross of 10000 and an annual gross of 120000, and the call raises \<^verbatim>\<open>UnboundLocalError\<close>:
  no federal withholding is returned, where the claim asks for 1442.21 (the annual tax of
  17306.50 over 12). The pay frequency is not among the arguments of the call, and the
  division that the function would perform (line 572) is by the constant 26.
\<close>

theorem federal_withholding_not_returned:
  "calculate_net_pay ex_db ex_monthly None None = Inl (UnboundLocalError ''Decimal'')
   \<and> withhold_call_args ex_db ex_monthly None None = (10000, 120000, ''single'', 1, 0)
   \<and> withhold_taxes 10000 120000 ''single'' 1 0 = Inl (UnboundLocalError ''Decimal'')
   \<and> periods_per_year (pay_frequency ex_monthly) = 12
   \<and> quantize_half_up
        (annual_tax 120000 ''single'' 1 / of_int (periods_per_year (pay_frequency ex_monthly)))
       = 144221 / 100"
  by code_simp

section \<open>Social Security tax and the wage base\<close>

text \<open>
  C3. The claim is that the Social Security tax is \<open>min(gross, max(0, wage_base - ytd))\<close>
  times the rate, rounded to the cent, and 0 once the year-to-date figure has reached the
  wage base. Lines 575 to 577 are written that way, but \<^verbatim>\<open>withhold_taxes\<close> raises on line
  553 before it reaches them. For a period gross of 5000 with 165000 year to date (the
  input of the repository's test, which expects 223.20) no tax is returned, and none for
  170000 year to date, where the claim asks for 0.
\<close>

theorem ss_tax_not_returned:
  "withhold_taxes 5000 168600 ''single'' 1 165000 = Inl (UnboundLocalError ''Decimal'')
   \<and> quantize_half_up (min 5000 (max 0 (SS_WAGE_BASE - 165000)) * SS_RATE) = 22320 / 100
   \<and> withhold_taxes 5000 168600 ''single'' 1 170000 = Inl (UnboundLocalError ''Decimal'')
   \<and> SS_WAGE_BASE \<le> 170000"
  by code_simp

text \<open>
  C4. The claim is that \<^verbatim>\<open>calculate_net_pay\<close> hands the FICA computation the year-to-date
  Social Security wages. The fifth argument of the call on lines 629 to 635, the
  parameter \<^verbatim>\<open>ytd_ss\<close> that \<^verbatim>\<open>withhold_taxes\<close> compares with the wage base, is
  \<^verbatim>\<open>employee.ytd_ss_tax\<close>, the tax paid. For the employee whose wages have reached the base
  the argument is 10453.20, not the wages 168600 that the tax paid divided by the rate
  gives.
\<close>

theorem ytd_ss_tax_passed_as_wages:
  "withhold_call_args ex_db ex_capped None None
     = (10000, 260000, ''single'', 1, 1045320 / 100)
   \<and> ytd_ss_tax ex_capped = 1045320 / 100
   \<and> ytd_ss_tax ex_capped / SS_RATE = 168600
   \<and> SS_WAGE_BASE = 168600
   \<and> snd (snd (snd (snd (withhold_call_args db e h ot)))) = ytd_ss_tax e"
proof (intro conjI)
  show "snd (snd (snd (snd (withhold_call_args db e h ot)))) = ytd_ss_tax e"
    by (simp add: withhold_call_args_def Let_def split: prod.splits)
qed code_simp+

section \<open>Year-to-date accumulation\<close>

lemma huge_paid:
  "map ytd_gross (employees (update_ytd ct ex_db_huge ''EMP-H'' 1 0 (6 / 100) (1 / 100) 0))
     = [ct 9007199254740992]"
  apply code_simp
  apply simp
  done

lemma huge_unpaid:
  "map ytd_gross (employees (update_ytd ct ex_db_huge ''EMP-H'' 0 0 0 0 0))
     = [ct 9007199254740992]"
  apply code_simp
  apply simp
  done

text \<open>
  C5. The claim is that each accumulator is the exact decimal sum of the period amounts,
  with no binary floating point in the accumulation. \<^verbatim>\<open>update_ytd\<close> casts the stored text
  to \<^verbatim>\<open>REAL\<close> and adds in binary64. On a row with a year-to-date gross of \<open>2\<^sup>5\<^sup>3\<close> the call
  \<^verbatim>\<open>update_ytd\<close> with a period gross of 1.00 leaves the same stored gross as the call with a
  period gross of 0, whatever rendering of the \<^verbatim>\<open>REAL\<close> is written back: the sum
  \<open>2\<^sup>5\<^sup>3 + 1\<close> is not a binary64 number and rounds to \<open>2\<^sup>5\<^sup>3\<close>.
\<close>

theorem update_ytd_binary_float:
  "map ytd_gross (employees (update_ytd ct ex_db_huge ''EMP-H'' 1 0 (6 / 100) (1 / 100) 0))
     = [ct 9007199254740992]
   \<and> map ytd_gross (employees (update_ytd ct ex_db_huge ''EMP-H'' 0 0 0 0 0))
     = [ct 9007199254740992]
   \<and> map ytd_gross (employees ex_db_huge) = [9007199254740992]
   \<and> ytd_gross ex_huge + 1 = 9007199254740993
   \<and> real_add (ytd_gross ex_huge) 1 = 9007199254740992"
proof (intro conjI)
  show "map ytd_gross (employees ex_db_huge) = [9007199254740992]" by code_simp
  show "ytd_gross ex_huge + 1 = 9007199254740993" by code_simp
  show "real_add (ytd_gross ex_huge) 1 = 9007199254740992" by code_simp
qed (rule huge_paid huge_unpaid)+

section \<open>Pre-tax deductions above the gross\<close>

text \<open>
  C6, as stated, fails: no check rejects a negative taxable gross, and the computation
  continues with it. For the employee with a period gross of 2000 and a flat pre-tax
  deduction of 2500, \<^verbatim>\<open>calculate_net_pay\<close> computes the taxable gross -500, annualizes it to
  -13000 and calls \<^verbatim>\<open>withhold_taxes\<close> with both. The exception that ends the call is the
  one that ends it for an employee without deductions.
\<close>

theorem negative_taxable_gross_counterexample:
  "withhold_call_args ex_db ex_over None None = (- 500, - 13000, ''single'', 1, 0)
   \<and> calculate_net_pay ex_db ex_over None None = Inl (UnboundLocalError ''Decimal'')
   \<and> get_deductions ex_db (emp_id ex_first) = []
   \<and> calculate_net_pay ex_db ex_first None None = Inl (UnboundLocalError ''Decimal'')"
  by code_simp

text \<open>
  C6, amended. For every active employee whose active pre-tax deductions total more than
  the period gross, \<^verbatim>\<open>calculate_net_pay\<close> neither rejects nor clamps the taxable gross: it
  computes the taxable gross as the gross minus the pre-tax total, a negative amount, and
  continues with it, passing it and its annualization as the first two arguments of the
  call of \<^verbatim>\<open>withhold_taxes\<close>; an exception with which \<^verbatim>\<open>calculate_net_pay\<close> ends is the one
  raised by that call.
\<close>

theorem negative_taxable_gross_passed_on:
  assumes act: "status e = ACTIVE"
    and over: "fst (gross_pay_of e h ot)
                 < fst (deduction_loop (fst (gross_pay_of e h ot))
                          (get_deductions db (emp_id e)) (0, 0))"
  shows "fst (withhold_call_args db e h ot)
           = fst (gross_pay_of e h ot)
             - fst (deduction_loop (fst (gross_pay_of e h ot))
                      (get_deductions db (emp_id e)) (0, 0))
         \<and> fst (withhold_call_args db e h ot) < 0
         \<and> fst (snd (withhold_call_args db e h ot))
           = fst (withhold_call_args db e h ot) * of_int (periods_per_year (pay_frequency e))
         \<and> (\<forall>err. calculate_net_pay db e h ot = Inl err \<longrightarrow>
                (case withhold_call_args db e h ot of
                   (a1, a2, a3, a4, a5) \<Rightarrow> withhold_taxes a1 a2 a3 a4 a5) = Inl err)"
proof (intro conjI allI impI)
  show a: "fst (withhold_call_args db e h ot)
           = fst (gross_pay_of e h ot)
             - fst (deduction_loop (fst (gross_pay_of e h ot))
                      (get_deductions db (emp_id e)) (0, 0))"
    by (simp add: withhold_call_args_def gross_and_deductions_def Let_def case_prod_beta)
  show "fst (withhold_call_args db e h ot) < 0"
    using over unfolding a by simp
  show "fst (snd (withhold_call_args db e h ot))
           = fst (withhold_call_args db e h ot) * of_int (periods_per_year (pay_frequency e))"
    by (simp add: withhold_call_args_def Let_def case_prod_beta)
next
  fix err
  assume "calculate_net_pay db e h ot = Inl err"
  with act show "(case withhold_call_args db e h ot of
                   (a1, a2, a3, a4, a5) \<Rightarrow> withhold_taxes a1 a2 a3 a4 a5) = Inl err"
    by (simp add: calculate_net_pay_def Let_def case_prod_beta split: sum.splits)
qed

lemma ex_over_exceeds:
  "status ex_over = ACTIVE
   \<and> fst (gross_pay_of ex_over None None)
       < fst (deduction_loop (fst (gross_pay_of ex_over None None))
                (get_deductions ex_db (emp_id ex_over)) (0, 0))"
  by code_simp

lemma ex_over_gross: "fst (gross_pay_of ex_over None None) = 2000"
  by code_simp

lemma ex_over_pre_tax:
  "fst (deduction_loop (fst (gross_pay_of ex_over None None))
          (get_deductions ex_db (emp_id ex_over)) (0, 0)) = 2500"
  by code_simp

lemma ex_over_periods: "periods_per_year (pay_frequency ex_over) = 26"
  by code_simp

theorem negative_taxable_gross_passed_on_witness:
  "status ex_over = ACTIVE
   \<and> fst (gross_pay_of ex_over None None)
       < fst (deduction_loop (fst (gross_pay_of ex_over None None))
                (get_deductions ex_db (emp_id ex_over)) (0, 0))
   \<and> fst (withhold_call_args ex_db ex_over None None) = - 500
   \<and> fst (withhold_call_args ex_db ex_over None None) < 0
   \<and> fst (snd (withhold_call_args ex_db ex_over None None)) = - 13000"
proof -
  from ex_over_exceeds have a: "status ex_over = ACTIVE"
    and b: "fst (gross_pay_of ex_over None None)
              < fst (deduction_loop (fst (gross_pay_of ex_over None None))
                       (get_deductions ex_db (emp_id ex_over)) (0, 0))"
    by blast+
  note t = negative_taxable_gross_passed_on [OF a b]
  from t have "fst (withhold_call_args ex_db ex_over None None)
           = fst (gross_pay_of ex_over None None)
             - fst (deduction_loop (fst (gross_pay_of ex_over None None))
                      (get_deductions ex_db (emp_id ex_over)) (0, 0))"
    by blast
  then have "fst (withhold_call_args ex_db ex_over None None)
           = fst (gross_pay_of ex_over None None) - 2500"
    by (simp only: ex_over_pre_tax)
  then have c: "fst (withhold_call_args ex_db ex_over None None) = - 500"
    by (simp add: ex_over_gross)
  from t have "fst (snd (withhold_call_args ex_db ex_over None None))
           = fst (withhold_call_args ex_db ex_over None None)
             * of_int (periods_per_year (pay_frequency ex_over))"
    by blast
  then have d: "fst (snd (withhold_call_args ex_db ex_over None None)) = - 13000"
    by (simp add: c ex_over_periods)
  from a b c d show ?thesis by simp
qed

section \<open>Bulk processing\<close>

lemma paystub_failures_all:
  "paystub_failures ct db p emps = map (\<lambda>e. (emp_id e, net_pay_error e)) emps"
  by (induction emps) (simp_all add: paystub_failures_def generate_paystub_error)

lemma paystub_successes_none: "paystub_successes ct db p emps = []"
  by (induction emps) (simp_all add: paystub_successes_def generate_paystub_error)

text \<open>
  C7, as stated, fails: \<^verbatim>\<open>bulk_process\<close> returns the list of paystubs only, and the batch
  of five employees of which the third is terminated returns no paystub, while the loop
  records five failures in its local list.
\<close>

theorem bulk_process_drops_errors_counterexample:
  "fst (bulk_process id ex_db ex_batch ex_period) = []
   \<and> snd (snd (bulk_loop id ex_db ex_batch ex_period [] []))
     = [(''EMP-1'', UnboundLocalError ''Decimal''),
        (''EMP-2'', UnboundLocalError ''Decimal''),
        (''EMP-3'', ValueError ''Employee EMP-3 is not active''),
        (''EMP-4'', UnboundLocalError ''Decimal''),
        (''EMP-5'', UnboundLocalError ''Decimal'')]"
  by code_simp

text \<open>
  C7, amended. For every batch of employees, bulk processing does not abort on a single
  employee's failure: each failing employee's id and error are caught and recorded, in
  order, in a local list, and the remaining employees are still processed, so that the
  paystubs and the recorded failures together account for every employee of the batch. The
  value returned to the caller is the list of the succeeded paystubs alone; the recorded
  (employee id, error) pairs are logged and not returned.
\<close>

theorem bulk_process_isolates_failures:
  "snd (snd (bulk_loop ct db emps p [] [])) = paystub_failures ct db p emps
   \<and> map employee_id (fst (snd (bulk_loop ct db emps p [] [])))
       = paystub_successes ct db p emps
   \<and> length (fst (snd (bulk_loop ct db emps p [] [])))
       + length (snd (snd (bulk_loop ct db emps p [] []))) = length emps
   \<and> fst (bulk_process ct db emps p) = fst (snd (bulk_loop ct db emps p [] []))"
  by (simp add: bulk_loop_all_fail paystub_failures_all paystub_successes_none
        bulk_process_def)

theorem bulk_process_isolates_failures_witness:
  "map fst (snd (snd (bulk_loop id ex_db ex_batch ex_period [] [])))
     = [''EMP-1'', ''EMP-2'', ''EMP-3'', ''EMP-4'', ''EMP-5'']
   \<and> map fst (paystub_failures id ex_db ex_period ex_batch)
     = [''EMP-1'', ''EMP-2'', ''EMP-3'', ''EMP-4'', ''EMP-5'']
   \<and> length (fst (snd (bulk_loop id ex_db ex_batch ex_period [] [])))
       + length (snd (snd (bulk_loop id ex_db ex_batch ex_period [] []))) = 5
   \<and> fst (bulk_process id ex_db ex_batch ex_period)
       = fst (snd (bulk_loop id ex_db ex_batch ex_period [] []))"
proof -
  note t = bulk_process_isolates_failures [of id ex_db ex_batch ex_period]
  have f: "map fst (paystub_failures id ex_db ex_period ex_batch)
             = [''EMP-1'', ''EMP-2'', ''EMP-3'', ''EMP-4'', ''EMP-5'']"
    by code_simp
  have l: "length ex_batch = 5" by (simp add: ex_batch_def)
  from t have e: "snd (snd (bulk_loop id ex_db ex_batch ex_period [] []))
                    = paystub_failures id ex_db ex_period ex_batch"
    by blast
  from t have n: "length (fst (snd (bulk_loop id ex_db ex_batch ex_period [] [])))
       + length (snd (snd (bulk_loop id ex_db ex_batch ex_period [] []))) = length ex_batch"
    by blast
  from t have r: "fst (bulk_process id ex_db ex_batch ex_period)
       = fst (snd (bulk_loop id ex_db ex_batch ex_period [] []))"
    by blast
  from f have "map fst (snd (snd (bulk_loop id ex_db ex_batch ex_period [] [])))
     = [''EMP-1'', ''EMP-2'', ''EMP-3'', ''EMP-4'', ''EMP-5'']"
    by (simp only: e)
  with f n [unfolded l] r show ?thesis by blast
qed

section \<open>Filing status\<close>








section \<open>Rounding mode\<close>

text \<open>
  C9. The claim is that every settled amount is rounded half-up. The tax amounts are; the
  salaried period gross, the hourly gross and the percentage deductions are quantized with
  no rounding argument, which is the context's half-even rounding. A salary of 26000.13
  paid biweekly is 1000.005 a period: the code settles 1000.00, half-up gives 1000.01.
  Half an hour at 10.01 is 5.005: the code settles 5.00, half-up gives 5.01. One percent
  of a gross of 10.50 is 0.105: the code settles 0.10, half-up gives 0.11.
\<close>

theorem period_gross_half_even:
  "salary ex_tie / of_int (periods_per_year (pay_frequency ex_tie)) = 1000005 / 1000
   \<and> period_gross ex_tie = 1000
   \<and> quantize_half_up (salary ex_tie / of_int (periods_per_year (pay_frequency ex_tie)))
       = 100001 / 100
   \<and> fst (gross_pay_of ex_hourly (Some (1 / 2)) None) = 5
   \<and> quantize_half_up (1 / 2 * (1001 / 100)) = 501 / 100
   \<and> deduction_loop (1050 / 100) [ex_percent] (0, 0) = (10 / 100, 0)
   \<and> quantize_half_up (1050 / 100 * amount ex_percent / 100) = 11 / 100"
  by code_simp


end
